theory Spec2Isabelle
  imports Main "HOL-Library.Sublist"
begin

section \<open>Passwordless authentication of main-back: controllers and request gate\<close>

text \<open>
  The development embeds \<^verbatim>\<open>AuthController\<close> (register, requestToken, login,
  logout) and the \<^verbatim>\<open>onRequest\<close> hook of \<^verbatim>\<open>fastify-app.ts\<close>.
  A thrown \<^verbatim>\<open>Error\<close> is a value: every operation returns its outcome together
  with the world it leaves behind, because nothing in the controllers rolls the store
  back when a later statement throws.
\<close>

subsection \<open>Errors and responses\<close>

text \<open>
  The source throws \<^verbatim>\<open>new Error(message)\<close> everywhere; \<open>TypeError\<close> stands for
  reading \<^verbatim>\<open>.value\<close> of an undefined \<^verbatim>\<open>mainEmail()\<close>.
\<close>

datatype error = Error string | TypeError

text \<open>
  \<^verbatim>\<open>SuccessResponse.create(request.id, data?)\<close> of utils/responses: the envelope
  holds the request id and, for login only, the signed token.
\<close>

record SuccessResponse =
  sr_requestId :: string
  sr_data :: "string option"

definition SuccessResponse_create :: "string \<Rightarrow> string option \<Rightarrow> SuccessResponse" where
  "SuccessResponse_create rid d = \<lparr>sr_requestId = rid, sr_data = d\<rparr>"

subsection \<open>JavaScript string operations used by the gate\<close>

text \<open>\<^verbatim>\<open>s.includes(sub)\<close>: \<open>sub\<close> occurs somewhere in \<open>s\<close>.\<close>

fun str_includes :: "string \<Rightarrow> string \<Rightarrow> bool" where
  "str_includes [] sub = (sub = [])"
| "str_includes (c # cs) sub = (prefix sub (c # cs) \<or> str_includes cs sub)"

text \<open>
  \<^verbatim>\<open>s.split(sep)\<close> for a non-empty separator: the pieces between successive
  occurrences of \<open>sep\<close>, found from the left. \<open>acc\<close> is the piece being read,
  reversed. (With an empty separator JavaScript splits into characters.)
\<close>

fun js_split_from :: "string \<Rightarrow> string \<Rightarrow> string \<Rightarrow> string list" where
  "js_split_from sep acc [] = [rev acc]"
| "js_split_from sep acc (c # cs) =
     (if sep \<noteq> [] \<and> prefix sep (c # cs)
      then rev acc # js_split_from sep [] (drop (length sep) (c # cs))
      else js_split_from sep (c # acc) cs)"

definition js_split :: "string \<Rightarrow> string \<Rightarrow> string list" where
  "js_split s sep = (if sep = [] then map (\<lambda>c. [c]) s else js_split_from sep [] s)"

text \<open>\<^verbatim>\<open>xs[i]\<close>: \<open>undefined\<close> out of range.\<close>

definition js_index :: "'a list \<Rightarrow> nat \<Rightarrow> 'a option" where
  "js_index xs i = (if i < length xs then Some (xs ! i) else None)"

subsection \<open>Entities and the store\<close>

text \<open>
  The entity classes (models/user, models/user-email, models/temp-token and the JWT
  token entity) are not among the sources; their fields are the ones the controllers
  read (\<^verbatim>\<open>user.id\<close>, \<^verbatim>\<open>email.value\<close>, \<^verbatim>\<open>token.id\<close>, the \<^verbatim>\<open>where\<close> clauses)
  and the relations the data model names. The store is the relational state those
  entities are mapped to: one table per entity, in insertion order.
\<close>

record User =
  u_id :: string

record UserEmail =
  ue_value :: string
  ue_main :: bool
  ue_user :: string

record TempToken =
  tt_id :: string
  tt_used :: bool
  tt_userEmail :: string

record JwtToken =
  jt_id :: string
  jt_active :: bool
  jt_user :: string

record store =
  users :: "User list"
  userEmails :: "UserEmail list"
  tempTokens :: "TempToken list"
  jwtTokens :: "JwtToken list"
  idSupply :: nat

text \<open>The world: the persistent store and the state of the email collaborator.\<close>

record 'm world =
  db :: store
  mail :: 'm

text \<open>The payload \<^verbatim>\<open>{id, userId, userEmail}\<close> signed at login and decoded by the gate.\<close>

record JWTTokenPayload =
  jp_id :: string
  jp_userId :: string
  jp_userEmail :: string

text \<open>
  \<^verbatim>\<open>JWTToken\<close> of utils/jwt-tokens is not among the sources: signing and
  verification are parameters of the controller and of the gate.
\<close>

record JWTToken =
  JWTToken_sign :: "string \<Rightarrow> JWTTokenPayload \<Rightarrow> string"
  JWTToken_verify :: "string \<Rightarrow> string \<Rightarrow> error + JWTTokenPayload"

text \<open>
  The injected collaborator \<^verbatim>\<open>sendEmail(message, email): Promise<void>\<close>: it either
  rejects or changes its own state.
\<close>

record 'm EmailSender =
  sendEmail :: "string \<Rightarrow> string \<Rightarrow> 'm \<Rightarrow> error + 'm"

text \<open>
  The methods of the entity classes that the controllers call, none of which is among
  the sources. The controllers and the gate are parametrised by them, so that a
  statement proved for every \<open>models\<close> holds whatever those methods do. A mutating
  method either throws or returns the store it has persisted.
\<close>

record models =
  UserEmail_checkEmailExist :: "store \<Rightarrow> string \<Rightarrow> bool"
  User_registerUser :: "store \<Rightarrow> string \<Rightarrow> error + (User \<times> store)"
  User_lastTempToken :: "store \<Rightarrow> User \<Rightarrow> TempToken option"
  User_mainEmail :: "store \<Rightarrow> User \<Rightarrow> UserEmail option"
  User_createNewToken :: "store \<Rightarrow> User \<Rightarrow> error + store"
  User_loginByTempToken :: "store \<Rightarrow> User \<Rightarrow> TempToken \<Rightarrow> error + store"
  User_lastJwtToken :: "store \<Rightarrow> User \<Rightarrow> JwtToken option"
  User_jwtTokenById :: "store \<Rightarrow> User \<Rightarrow> string \<Rightarrow> JwtToken option"
  JwtToken_active :: "JwtToken \<Rightarrow> bool"
  User_logout :: "store \<Rightarrow> User \<Rightarrow> error + store"

subsection \<open>Queries written in the sources\<close>

text \<open>\<^verbatim>\<open>User.findOne({where: {id}})\<close>.\<close>

definition User_findOne :: "store \<Rightarrow> string \<Rightarrow> User option" where
  "User_findOne d uid = find (\<lambda>u. u_id u = uid) (users d)"

text \<open>\<^verbatim>\<open>UserEmail.findOne({where: {main: true, value}, relations: ["user"]})\<close>.\<close>

definition UserEmail_findOne :: "store \<Rightarrow> string \<Rightarrow> UserEmail option" where
  "UserEmail_findOne d v = find (\<lambda>x. ue_main x \<and> ue_value x = v) (userEmails d)"

text \<open>The loaded relation \<^verbatim>\<open>userEmail.user\<close>.\<close>

definition UserEmail_user :: "UserEmail \<Rightarrow> User" where
  "UserEmail_user x = \<lparr>u_id = ue_user x\<rparr>"

text \<open>
  \<^verbatim>\<open>TempToken.findOne({where: {id, used: false, userEmail: {value, main: true}},
  relations: ["userEmail", "userEmail.user"]})\<close>: the token together with its loaded
  \<^verbatim>\<open>userEmail\<close>.
\<close>

definition email_of_token :: "store \<Rightarrow> TempToken \<Rightarrow> string \<Rightarrow> UserEmail option" where
  "email_of_token d t v =
     find (\<lambda>x. ue_value x = tt_userEmail t \<and> ue_value x = v \<and> ue_main x) (userEmails d)"

definition TempToken_findOne :: "store \<Rightarrow> string \<Rightarrow> string \<Rightarrow> (TempToken \<times> UserEmail) option" where
  "TempToken_findOne d tid v =
     (case find (\<lambda>t. tt_id t = tid \<and> \<not> tt_used t \<and> email_of_token d t v \<noteq> None) (tempTokens d) of
        None \<Rightarrow> None
      | Some t \<Rightarrow> (case email_of_token d t v of None \<Rightarrow> None | Some x \<Rightarrow> Some (t, x)))"

subsection \<open>Requests\<close>

text \<open>
  The parts of a Fastify request the code reads: \<^verbatim>\<open>request.id\<close>, \<^verbatim>\<open>request.url\<close>,
  \<^verbatim>\<open>request.headers.authorization\<close>, the decorated \<^verbatim>\<open>request.userId\<close> (initially
  the empty string) and the body fields \<^verbatim>\<open>email\<close> and \<^verbatim>\<open>tempToken\<close>.
\<close>

record FastifyRequest =
  req_id :: string
  url :: string
  authorization :: "string option"
  userId :: string
  body_email :: string
  body_tempToken :: string

subsection \<open>The onRequest hook of the authenticated routes\<close>

text \<open>\<^verbatim>\<open>headerToken.split("Bearer ")[1]\<close>.\<close>

definition headerToken_split :: "string \<Rightarrow> string option" where
  "headerToken_split headerToken = js_index (js_split headerToken ''Bearer '') 1"

definition permission_denied :: error where
  "permission_denied = Error ''Permission denied''"

definition onRequest :: "models \<Rightarrow> JWTToken \<Rightarrow> string \<Rightarrow> store \<Rightarrow> FastifyRequest \<Rightarrow> error + FastifyRequest" where
  "onRequest M J secret d request =
     (if str_includes (url request) ''documentation'' \<or> str_includes (url request) ''health''
      then Inr request
      else case authorization request of
        None \<Rightarrow> Inl permission_denied
      | Some headerToken \<Rightarrow>
          if headerToken = [] then Inl permission_denied
          else case headerToken_split headerToken of
            None \<Rightarrow> Inl permission_denied
          | Some token \<Rightarrow>
              if token = [] then Inl permission_denied
              else case JWTToken_verify J secret token of
                Inl e \<Rightarrow> Inl e
              | Inr decoded \<Rightarrow>
                  (case User_findOne d (jp_userId decoded) of
                     None \<Rightarrow> Inl permission_denied
                   | Some user \<Rightarrow>
                       (case User_jwtTokenById M d user (jp_id decoded) of
                          None \<Rightarrow> Inl permission_denied
                        | Some jwtToken \<Rightarrow>
                            if \<not> JwtToken_active M jwtToken then Inl permission_denied
                            else Inr (request\<lparr>userId := u_id user\<rparr>))))"

text \<open>
  A route registered under the hook: the hook runs first, and the handler receives the
  request the hook has annotated.
\<close>

definition authenticated ::
  "models \<Rightarrow> JWTToken \<Rightarrow> string \<Rightarrow>
   (FastifyRequest \<Rightarrow> 'm world \<Rightarrow> (error + SuccessResponse) \<times> 'm world) \<Rightarrow>
   FastifyRequest \<Rightarrow> 'm world \<Rightarrow> (error + SuccessResponse) \<times> 'm world" where
  "authenticated M J secret handler request w =
     (case onRequest M J secret (db w) request of
        Inl e \<Rightarrow> (Inl e, w)
      | Inr request' \<Rightarrow> handler request' w)"

subsection \<open>AuthController\<close>

text \<open>
  \<^verbatim>\<open>register\<close>. \<open>User_registerUser\<close> stands for \<^verbatim>\<open>User.registerUser(email)\<close>
  followed by \<^verbatim>\<open>user.save()\<close>. Once the user is saved, a later throw leaves the
  saved store in place.
\<close>

definition register ::
  "models \<Rightarrow> 'm EmailSender \<Rightarrow> FastifyRequest \<Rightarrow> 'm world \<Rightarrow> (error + SuccessResponse) \<times> 'm world" where
  "register M emailSender request w =
     (if UserEmail_checkEmailExist M (db w) (body_email request)
      then (Inl (Error (''User with email '' @ body_email request @ '' already exist'')), w)
      else case User_registerUser M (db w) (body_email request) of
        Inl e \<Rightarrow> (Inl e, w)
      | Inr (user, d1) \<Rightarrow>
          (case User_lastTempToken M d1 user of
             None \<Rightarrow> (Inl (Error ''Something went wrong''), w\<lparr>db := d1\<rparr>)
           | Some token \<Rightarrow>
               (case User_mainEmail M d1 user of
                  None \<Rightarrow> (Inl (Error ''Something went wrong''), w\<lparr>db := d1\<rparr>)
                | Some email \<Rightarrow>
                    (case sendEmail emailSender (''Your token is '' @ tt_id token) (ue_value email) (mail w) of
                       Inl e \<Rightarrow> (Inl e, w\<lparr>db := d1\<rparr>)
                     | Inr m1 \<Rightarrow>
                         (Inr (SuccessResponse_create (req_id request) None),
                          w\<lparr>db := d1, mail := m1\<rparr>)))))"

text \<open>The handler of controllers/auth/register/handler.ts has the same statements.\<close>

definition handler_register ::
  "models \<Rightarrow> 'm EmailSender \<Rightarrow> FastifyRequest \<Rightarrow> 'm world \<Rightarrow> (error + SuccessResponse) \<times> 'm world" where
  "handler_register M emailSender request w =
     (if UserEmail_checkEmailExist M (db w) (body_email request)
      then (Inl (Error (''User with email '' @ body_email request @ '' already exist'')), w)
      else case User_registerUser M (db w) (body_email request) of
        Inl e \<Rightarrow> (Inl e, w)
      | Inr (user, d1) \<Rightarrow>
          (case User_lastTempToken M d1 user of
             None \<Rightarrow> (Inl (Error ''Something went wrong''), w\<lparr>db := d1\<rparr>)
           | Some token \<Rightarrow>
               (case User_mainEmail M d1 user of
                  None \<Rightarrow> (Inl (Error ''Something went wrong''), w\<lparr>db := d1\<rparr>)
                | Some email \<Rightarrow>
                    (case sendEmail emailSender (''Your token is '' @ tt_id token) (ue_value email) (mail w) of
                       Inl e \<Rightarrow> (Inl e, w\<lparr>db := d1\<rparr>)
                     | Inr m1 \<Rightarrow>
                         (Inr (SuccessResponse_create (req_id request) None),
                          w\<lparr>db := d1, mail := m1\<rparr>)))))"

text \<open>\<^verbatim>\<open>requestToken\<close>.\<close>

definition requestToken ::
  "models \<Rightarrow> 'm EmailSender \<Rightarrow> FastifyRequest \<Rightarrow> 'm world \<Rightarrow> (error + SuccessResponse) \<times> 'm world" where
  "requestToken M emailSender request w =
     (case UserEmail_findOne (db w) (body_email request) of
        None \<Rightarrow> (Inr (SuccessResponse_create (req_id request) None), w)
      | Some userEmail \<Rightarrow>
          (let user = UserEmail_user userEmail in
           case User_createNewToken M (db w) user of
             Inl e \<Rightarrow> (Inl e, w)
           | Inr d1 \<Rightarrow>
               (case User_lastTempToken M d1 user of
                  None \<Rightarrow> (Inl (Error ''There is no token''), w\<lparr>db := d1\<rparr>)
                | Some token \<Rightarrow>
                    (case User_mainEmail M d1 user of
                       None \<Rightarrow> (Inl TypeError, w\<lparr>db := d1\<rparr>)
                     | Some email \<Rightarrow>
                         (case sendEmail emailSender (''Your token is '' @ tt_id token) (ue_value email) (mail w) of
                            Inl e \<Rightarrow> (Inl e, w\<lparr>db := d1\<rparr>)
                          | Inr m1 \<Rightarrow>
                              (Inr (SuccessResponse_create (req_id request) None),
                               w\<lparr>db := d1, mail := m1\<rparr>))))))"

text \<open>
  \<^verbatim>\<open>login\<close>. \<open>User_loginByTempToken\<close> stands for \<^verbatim>\<open>user.loginByTempToken(tempToken)\<close>
  followed by \<^verbatim>\<open>user.save()\<close>.
\<close>

definition login ::
  "models \<Rightarrow> JWTToken \<Rightarrow> string \<Rightarrow> FastifyRequest \<Rightarrow> 'm world \<Rightarrow> (error + SuccessResponse) \<times> 'm world" where
  "login M J privateKey request w =
     (case TempToken_findOne (db w) (body_tempToken request) (body_email request) of
        None \<Rightarrow>
          (Inl (Error (''There is no unused token with id '' @ body_tempToken request)), w)
      | Some (tempToken, userEmail) \<Rightarrow>
          (let user = UserEmail_user userEmail in
           case User_loginByTempToken M (db w) user tempToken of
             Inl e \<Rightarrow> (Inl e, w)
           | Inr d1 \<Rightarrow>
               (case User_lastJwtToken M d1 user of
                  None \<Rightarrow> (Inl (Error ''No JWT Token''), w\<lparr>db := d1\<rparr>)
                | Some jwtToken \<Rightarrow>
                    (case User_mainEmail M d1 user of
                       None \<Rightarrow> (Inl TypeError, w\<lparr>db := d1\<rparr>)
                     | Some email \<Rightarrow>
                         (Inr (SuccessResponse_create (req_id request)
                                 (Some (JWTToken_sign J privateKey
                                          \<lparr>jp_id = jt_id jwtToken, jp_userId = u_id user,
                                           jp_userEmail = ue_value email\<rparr>))),
                          w\<lparr>db := d1\<rparr>)))))"

text \<open>
  \<^verbatim>\<open>logout\<close>: it reads the \<open>userId\<close> the hook has set and nothing of the
  credential; \<^verbatim>\<open>user.logout()\<close> takes no argument.
\<close>

definition logout ::
  "models \<Rightarrow> FastifyRequest \<Rightarrow> 'm world \<Rightarrow> (error + SuccessResponse) \<times> 'm world" where
  "logout M request w =
     (if userId request = [] then (Inl (Error ''Permission denied''), w)
      else case User_findOne (db w) (userId request) of
        None \<Rightarrow> (Inl (Error ''User must be''), w)
      | Some user \<Rightarrow>
          (case User_logout M (db w) user of
             Inl e \<Rightarrow> (Inl e, w)
           | Inr d1 \<Rightarrow> (Inr (SuccessResponse_create (req_id request) None), w\<lparr>db := d1\<rparr>)))"


subsection \<open>The entity methods, modelled from the specification\<close>

text \<open>
  None of the entity classes is among the sources. The definitions below give their
  methods the behaviour the specification describes for the Identity Store, the Token
  Ledger and the Session Registry; \<open>spec_models\<close> collects them. Statements about
  \<open>spec_models\<close> are statements about this reading, not about the absent classes.
\<close>

text \<open>
  Modelled from the spec: the identifiers drawn by \<^verbatim>\<open>uuid.v4()\<close> for new rows
  ("id (opaque, stable)"). A supply counter in the store is rendered injectively, so a
  new id differs from every id drawn before; unguessability is not modelled.
\<close>

definition v4 :: "nat \<Rightarrow> string" where
  "v4 n = ''uuid-'' @ replicate n (CHR ''i'')"

text \<open>
  Modelled from the spec: \<^verbatim>\<open>UserEmail.checkEmailExist\<close>, as "emailExists(value) ->
  bool: global existence check across all users".
\<close>

definition spec_checkEmailExist :: "store \<Rightarrow> string \<Rightarrow> bool" where
  "spec_checkEmailExist d v = list_ex (\<lambda>x. ue_value x = v) (userEmails d)"

text \<open>
  Modelled from the spec: \<^verbatim>\<open>User.registerUser\<close> with \<^verbatim>\<open>save\<close>, as "createUser(email)
  -> User: creates a User with one UserEmail marked main=true. Fails with ConflictError
  if emailExists(email) is true" and register's "Side effect: one new User, one
  UserEmail, one TempToken"; the token is "a new unused token bound to the user's main
  email".
\<close>

definition spec_registerUser :: "store \<Rightarrow> string \<Rightarrow> error + (User \<times> store)" where
  "spec_registerUser d v =
     (if spec_checkEmailExist d v then Inl (Error ''ConflictError'')
      else Inr (\<lparr>u_id = v4 (idSupply d)\<rparr>,
                d\<lparr>users := users d @ [\<lparr>u_id = v4 (idSupply d)\<rparr>],
                  userEmails := userEmails d @
                    [\<lparr>ue_value = v, ue_main = True, ue_user = v4 (idSupply d)\<rparr>],
                  tempTokens := tempTokens d @
                    [\<lparr>tt_id = v4 (Suc (idSupply d)), tt_used = False, tt_userEmail = v\<rparr>],
                  idSupply := Suc (Suc (idSupply d))\<rparr>))"

text \<open>
  Modelled from the spec: \<^verbatim>\<open>user.mainEmail()\<close>, the email of the user with
  \<open>main = true\<close> ("at most one main = true email per user").
\<close>

definition spec_mainEmail :: "store \<Rightarrow> User \<Rightarrow> UserEmail option" where
  "spec_mainEmail d user = find (\<lambda>x. ue_user x = u_id user \<and> ue_main x) (userEmails d)"

text \<open>
  Modelled from the spec: \<^verbatim>\<open>user.lastTempToken()\<close>, the token created last among
  those bound to the user's main email (tables are in creation order).
\<close>

definition spec_lastTempToken :: "store \<Rightarrow> User \<Rightarrow> TempToken option" where
  "spec_lastTempToken d user =
     (case spec_mainEmail d user of
        None \<Rightarrow> None
      | Some email \<Rightarrow>
          (case filter (\<lambda>t. tt_userEmail t = ue_value email) (tempTokens d) of
             [] \<Rightarrow> None
           | t # ts \<Rightarrow> Some (last (t # ts))))"

text \<open>
  Modelled from the spec: \<^verbatim>\<open>user.createNewToken()\<close>, as "issueToken(user) ->
  TempToken: creates a new unused token bound to the user's main email; does not
  invalidate prior unused tokens"; a user without main email cannot receive tokens
  (\<open>NotFoundError\<close>, the internal lookup miss).
\<close>

definition spec_createNewToken :: "store \<Rightarrow> User \<Rightarrow> error + store" where
  "spec_createNewToken d user =
     (case spec_mainEmail d user of
        None \<Rightarrow> Inl (Error ''NotFoundError'')
      | Some email \<Rightarrow>
          Inr (d\<lparr>tempTokens := tempTokens d @
                    [\<lparr>tt_id = v4 (idSupply d), tt_used = False, tt_userEmail = ue_value email\<rparr>],
                 idSupply := Suc (idSupply d)\<rparr>))"

text \<open>
  Modelled from the spec: \<^verbatim>\<open>user.loginByTempToken(tempToken)\<close> with \<^verbatim>\<open>save\<close>, as
  consumeToken's "marks it used" followed by "openSession(user) -> SessionCredential:
  creates a new active credential for the user".
\<close>

definition spec_loginByTempToken :: "store \<Rightarrow> User \<Rightarrow> TempToken \<Rightarrow> error + store" where
  "spec_loginByTempToken d user tempToken =
     Inr (d\<lparr>tempTokens :=
              map (\<lambda>t. if tt_id t = tt_id tempToken then t\<lparr>tt_used := True\<rparr> else t) (tempTokens d),
            jwtTokens := jwtTokens d @
              [\<lparr>jt_id = v4 (idSupply d), jt_active = True, jt_user = u_id user\<rparr>],
            idSupply := Suc (idSupply d)\<rparr>)"

text \<open>
  Modelled from the spec: \<^verbatim>\<open>user.lastJwtToken()\<close>, the session credential of the
  user created last.
\<close>

definition spec_lastJwtToken :: "store \<Rightarrow> User \<Rightarrow> JwtToken option" where
  "spec_lastJwtToken d user =
     (case filter (\<lambda>j. jt_user j = u_id user) (jwtTokens d) of
        [] \<Rightarrow> None
      | j # js \<Rightarrow> Some (last (j # js)))"

text \<open>
  Modelled from the spec: \<^verbatim>\<open>user.jwtTokenById(id)\<close> and \<^verbatim>\<open>jwtToken.active()\<close>, as
  "isActive(credentialId, userId) -> bool: liveness check; must verify the credential
  belongs to the claimed user".
\<close>

definition spec_jwtTokenById :: "store \<Rightarrow> User \<Rightarrow> string \<Rightarrow> JwtToken option" where
  "spec_jwtTokenById d user cid =
     find (\<lambda>j. jt_user j = u_id user \<and> jt_id j = cid) (jwtTokens d)"

text \<open>
  Modelled from the spec: \<^verbatim>\<open>jwtToken.active()\<close>, the \<open>active\<close> flag of the
  SessionCredential ("deactivated on logout; a deactivated credential can never
  reactivate").
\<close>

definition spec_active :: "JwtToken \<Rightarrow> bool" where
  "spec_active j = jt_active j"

text \<open>
  Modelled from the spec: \<^verbatim>\<open>user.logout()\<close>. The controller passes it no credential
  id, so of the Session Registry's operations "revoke(credentialId) / revokeAll(userId):
  marks credential(s) inactive. Idempotent" it is \<open>revokeAll\<close> of the user that the
  receiver determines.
\<close>

definition spec_logout :: "store \<Rightarrow> User \<Rightarrow> error + store" where
  "spec_logout d user =
     Inr (d\<lparr>jwtTokens :=
              map (\<lambda>j. if jt_user j = u_id user then j\<lparr>jt_active := False\<rparr> else j) (jwtTokens d)\<rparr>)"

definition spec_models :: models where
  "spec_models =
     \<lparr>UserEmail_checkEmailExist = spec_checkEmailExist,
      User_registerUser = spec_registerUser,
      User_lastTempToken = spec_lastTempToken,
      User_mainEmail = spec_mainEmail,
      User_createNewToken = spec_createNewToken,
      User_loginByTempToken = spec_loginByTempToken,
      User_lastJwtToken = spec_lastJwtToken,
      User_jwtTokenById = spec_jwtTokenById,
      JwtToken_active = spec_active,
      User_logout = spec_logout\<rparr>"

subsection \<open>Sequences of calls\<close>

text \<open>
  The four routes; logout is registered under the hook. \<open>run\<close> performs calls one
  after the other, each on the world the previous one left.
\<close>

datatype call =
  Register FastifyRequest
| RequestToken FastifyRequest
| Login FastifyRequest
| Logout FastifyRequest

fun exec ::
  "models \<Rightarrow> JWTToken \<Rightarrow> string \<Rightarrow> 'm EmailSender \<Rightarrow> call \<Rightarrow> 'm world \<Rightarrow> (error + SuccessResponse) \<times> 'm world" where
  "exec M J secret emailSender (Register r) w = register M emailSender r w"
| "exec M J secret emailSender (RequestToken r) w = requestToken M emailSender r w"
| "exec M J secret emailSender (Login r) w = login M J secret r w"
| "exec M J secret emailSender (Logout r) w = authenticated M J secret (logout M) r w"

fun run ::
  "models \<Rightarrow> JWTToken \<Rightarrow> string \<Rightarrow> 'm EmailSender \<Rightarrow> call list \<Rightarrow> 'm world \<Rightarrow> 'm world" where
  "run M J secret emailSender [] w = w"
| "run M J secret emailSender (c # cs) w =
     run M J secret emailSender cs (snd (exec M J secret emailSender c w))"




subsection \<open>A concrete scenario\<close>

text \<open>
  An empty store, a store in which one user holds two active credentials and a
  revoked one, a collaborator that records what it is asked to send and one that
  always rejects, and a verifier that knows four tokens and refuses every other one
  with its own error; used to run the operations on concrete inputs.
\<close>

definition empty_store :: store where
  "empty_store = \<lparr>users = [], userEmails = [], tempTokens = [], jwtTokens = [], idSupply = 0\<rparr>"

definition outbox_sender :: "(string \<times> string) list EmailSender" where
  "outbox_sender = \<lparr>sendEmail = (\<lambda>message address box. Inr (box @ [(message, address)]))\<rparr>"

definition failing_sender :: "(string \<times> string) list EmailSender" where
  "failing_sender = \<lparr>sendEmail = (\<lambda>message address box. Inl (Error ''delivery failed''))\<rparr>"

definition table_jwt :: JWTToken where
  "table_jwt =
     \<lparr>JWTToken_sign = (\<lambda>key payload. ''jwt-'' @ jp_id payload),
      JWTToken_verify = (\<lambda>key token.
        if token = ''jwt-c1''
        then Inr \<lparr>jp_id = ''c1'', jp_userId = ''u1'', jp_userEmail = ''a@x.com''\<rparr>
        else if token = ''jwt-c2''
        then Inr \<lparr>jp_id = ''c2'', jp_userId = ''u1'', jp_userEmail = ''a@x.com''\<rparr>
        else if token = ''jwt-c3''
        then Inr \<lparr>jp_id = ''c3'', jp_userId = ''u1'', jp_userEmail = ''a@x.com''\<rparr>
        else if token = ''jwt-ghost''
        then Inr \<lparr>jp_id = ''c9'', jp_userId = ''u9'', jp_userEmail = ''g@x.com''\<rparr>
        else Inl (Error ''invalid signature''))\<rparr>"

definition two_sessions :: store where
  "two_sessions =
     \<lparr>users = [\<lparr>u_id = ''u1''\<rparr>],
      userEmails = [\<lparr>ue_value = ''a@x.com'', ue_main = True, ue_user = ''u1''\<rparr>],
      tempTokens = [\<lparr>tt_id = ''t1'', tt_used = True, tt_userEmail = ''a@x.com''\<rparr>,
                    \<lparr>tt_id = ''t2'', tt_used = True, tt_userEmail = ''a@x.com''\<rparr>],
      jwtTokens = [\<lparr>jt_id = ''c1'', jt_active = True, jt_user = ''u1''\<rparr>,
                   \<lparr>jt_id = ''c2'', jt_active = True, jt_user = ''u1''\<rparr>,
                   \<lparr>jt_id = ''c3'', jt_active = False, jt_user = ''u1''\<rparr>],
      idSupply = 0\<rparr>"

definition request_to :: "string \<Rightarrow> string option \<Rightarrow> FastifyRequest" where
  "request_to u h =
     \<lparr>req_id = ''r1'', url = u, authorization = h, userId = [], body_email = [],
      body_tempToken = []\<rparr>"

definition request_body :: "string \<Rightarrow> string \<Rightarrow> FastifyRequest" where
  "request_body v t =
     \<lparr>req_id = ''r1'', url = ''/auth'', authorization = None, userId = [], body_email = v,
      body_tempToken = t\<rparr>"

subsection \<open>Facts about the string operations\<close>

lemma str_includes_iff: "str_includes s sub \<longleftrightarrow> (\<exists>pre post. s = pre @ sub @ post)"
proof (induction s)
  case Nil
  then show ?case by auto
next
  case (Cons c cs)
  show ?case
  proof
    assume "str_includes (c # cs) sub"
    then consider "prefix sub (c # cs)" | "str_includes cs sub" by auto
    then show "\<exists>pre post. c # cs = pre @ sub @ post"
    proof cases
      case 1
      then obtain post where "c # cs = sub @ post" by (auto simp: prefix_def)
      then have "c # cs = [] @ sub @ post" by simp
      then show ?thesis by blast
    next
      case 2
      with Cons.IH obtain pre post where "cs = pre @ sub @ post" by blast
      then have "c # cs = (c # pre) @ sub @ post" by simp
      then show ?thesis by blast
    qed
  next
    assume "\<exists>pre post. c # cs = pre @ sub @ post"
    then obtain pre post where eq: "c # cs = pre @ sub @ post" by blast
    show "str_includes (c # cs) sub"
    proof (cases pre)
      case Nil
      with eq have "prefix sub (c # cs)" by (simp add: prefix_def)
      then show ?thesis by simp
    next
      case (Cons p ps)
      with eq have "cs = ps @ sub @ post" by simp
      with Cons.IH have "str_includes cs sub" by blast
      then show ?thesis by simp
    qed
  qed
qed

subsection \<open>Unfolding rules for concrete runs\<close>

lemmas scenario_defs =
  empty_store_def outbox_sender_def failing_sender_def table_jwt_def two_sessions_def
  request_to_def request_body_def

lemmas spec_defs =
  spec_models_def spec_checkEmailExist_def spec_registerUser_def spec_mainEmail_def
  spec_lastTempToken_def spec_createNewToken_def spec_loginByTempToken_def
  spec_lastJwtToken_def spec_jwtTokenById_def spec_active_def spec_logout_def v4_def

lemmas query_defs =
  User_findOne_def UserEmail_findOne_def UserEmail_user_def email_of_token_def
  TempToken_findOne_def SuccessResponse_create_def


lemma spec_models_sel [simp]:
  "UserEmail_checkEmailExist spec_models = spec_checkEmailExist"
  "User_registerUser spec_models = spec_registerUser"
  "User_lastTempToken spec_models = spec_lastTempToken"
  "User_mainEmail spec_models = spec_mainEmail"
  "User_createNewToken spec_models = spec_createNewToken"
  "User_loginByTempToken spec_models = spec_loginByTempToken"
  "User_lastJwtToken spec_models = spec_lastJwtToken"
  "User_jwtTokenById spec_models = spec_jwtTokenById"
  "JwtToken_active spec_models = spec_active"
  "User_logout spec_models = spec_logout"
  by (simp_all add: spec_models_def)

lemma handler_register_eq: "handler_register = register"
  by (intro ext) (simp add: handler_register_def register_def)

subsection \<open>The allow-list of the gate\<close>

text \<open>
  C10. Whenever the URL contains \<open>documentation\<close> or \<open>health\<close> anywhere, the hook
  returns at once: whatever the Authorization header, the store, the signer and the
  entity methods are, the request proceeds, unchanged (no \<open>userId\<close> is set). The test
  is a substring test on the URL, so it holds for any path with such a substring.
\<close>

theorem onRequest_allow_list_substring:
  assumes "(\<exists>pre post. url request = pre @ ''documentation'' @ post)
         \<or> (\<exists>pre post. url request = pre @ ''health'' @ post)"
  shows "onRequest M J secret d request = Inr request"
  using assms unfolding onRequest_def str_includes_iff [symmetric] by simp

theorem onRequest_allow_list_substring_witness:
  "(\<exists>pre post. url (request_to ''/user/healthy-habits'' None) = pre @ ''health'' @ post)
   \<and> onRequest spec_models table_jwt ''k'' two_sessions (request_to ''/user/healthy-habits'' None)
      = Inr (request_to ''/user/healthy-habits'' None)"
proof -
  let ?r = "request_to ''/user/healthy-habits'' None"
  have "url ?r = ''/user/'' @ ''health'' @ ''y-habits''" by (simp add: request_to_def)
  then have ex: "\<exists>pre post. url ?r = pre @ ''health'' @ post" by blast
  have "onRequest spec_models table_jwt ''k'' two_sessions ?r = Inr ?r"
    by (rule onRequest_allow_list_substring) (rule disjI2, rule ex)
  with ex show ?thesis by blast
qed

subsection \<open>The failure modes of the gate\<close>



text \<open>The hook passes on whatever \<^verbatim>\<open>JWTToken.verify\<close> throws.\<close>

lemma onRequest_verify_error:
  assumes "\<not> str_includes (url request) ''documentation''"
    and "\<not> str_includes (url request) ''health''"
    and "authorization request = Some h" and "h \<noteq> []"
    and "headerToken_split h = Some token" and "token \<noteq> []"
    and "JWTToken_verify J secret token = Inl e"
  shows "onRequest M J secret d request = Inl e"
  using assms by (simp add: onRequest_def)


subsection \<open>requestToken\<close>

lemma UserEmail_findOne_None:
  "UserEmail_findOne d v = None \<longleftrightarrow> \<not> (\<exists>x \<in> set (userEmails d). ue_main x \<and> ue_value x = v)"
  by (auto simp: UserEmail_findOne_def find_None_iff)


lemma requestToken_unknown:
  assumes "UserEmail_findOne (db w) (body_email request) = None"
  shows "requestToken M emailSender request w
         = (Inr (SuccessResponse_create (req_id request) None), w)"
  using assms by (simp add: requestToken_def)

text \<open>
  C6. When no email row with \<open>main = true\<close> has the requested value, requestToken
  returns the success envelope and the world it was given: the store and the state of
  the email collaborator are untouched, so no token is created and nothing is sent.
\<close>

theorem requestToken_unknown_email_no_effect:
  assumes "\<not> (\<exists>x \<in> set (userEmails (db w)). ue_main x \<and> ue_value x = body_email request)"
  shows "requestToken M emailSender request w
         = (Inr (SuccessResponse_create (req_id request) None), w)"
proof -
  from assms have "UserEmail_findOne (db w) (body_email request) = None"
    by (simp only: UserEmail_findOne_None not_False_eq_True)
  then show ?thesis by (rule requestToken_unknown)
qed

theorem requestToken_unknown_email_no_effect_witness:
  "\<not> (\<exists>x \<in> set (userEmails (db \<lparr>db = two_sessions, mail = []\<rparr>)).
         ue_main x \<and> ue_value x = body_email (request_body ''unknown@x.com'' []))
   \<and> requestToken spec_models outbox_sender (request_body ''unknown@x.com'' [])
        \<lparr>db = two_sessions, mail = []\<rparr>
      = (Inr \<lparr>sr_requestId = ''r1'', sr_data = None\<rparr>, \<lparr>db = two_sessions, mail = []\<rparr>)"
proof -
  have h: "\<not> (\<exists>x \<in> set (userEmails (db \<lparr>db = two_sessions, mail = ([] :: (string \<times> string) list)\<rparr>)).
         ue_main x \<and> ue_value x = body_email (request_body ''unknown@x.com'' []))"
    by (simp add: scenario_defs)
  show ?thesis
    using h requestToken_unknown_email_no_effect [OF h, of spec_models outbox_sender]
    by (simp add: SuccessResponse_create_def request_body_def)
qed





subsection \<open>register\<close>

lemma register_empty_a:
  "register spec_models outbox_sender (request_body ''a@x.com'' []) \<lparr>db = empty_store, mail = []\<rparr>
   = (Inr \<lparr>sr_requestId = ''r1'', sr_data = None\<rparr>,
      \<lparr>db = \<lparr>users = [\<lparr>u_id = ''uuid-''\<rparr>],
              userEmails = [\<lparr>ue_value = ''a@x.com'', ue_main = True, ue_user = ''uuid-''\<rparr>],
              tempTokens = [\<lparr>tt_id = ''uuid-i'', tt_used = False, tt_userEmail = ''a@x.com''\<rparr>],
              jwtTokens = [], idSupply = 2\<rparr>,
        mail = [(''Your token is uuid-i'', ''a@x.com'')]\<rparr>)"
  by (simp add: register_def scenario_defs spec_defs query_defs)

text \<open>
  C8. When register succeeds, the response is \<^verbatim>\<open>SuccessResponse.create(request.id)\<close>:
  the request id and no data. The token id goes into the message
  \<open>Your token is <id>\<close> handed to the email collaborator, sent to the main email of
  the user just saved.
\<close>

theorem register_response_bare:
  assumes "register M emailSender request w = (Inr response, w')"
  shows "response = SuccessResponse_create (req_id request) None \<and> sr_data response = None
       \<and> (\<exists>user token email.
            User_registerUser M (db w) (body_email request) = Inr (user, db w')
          \<and> User_lastTempToken M (db w') user = Some token
          \<and> User_mainEmail M (db w') user = Some email
          \<and> sendEmail emailSender (''Your token is '' @ tt_id token) (ue_value email) (mail w)
              = Inr (mail w'))"
  using assms
  by (auto simp: register_def SuccessResponse_create_def
           split: if_splits option.splits sum.splits prod.splits)

theorem register_response_bare_witness:
  "fst (register spec_models outbox_sender (request_body ''a@x.com'' [])
          \<lparr>db = empty_store, mail = []\<rparr>)
     = Inr \<lparr>sr_requestId = ''r1'', sr_data = None\<rparr>
   \<and> mail (snd (register spec_models outbox_sender (request_body ''a@x.com'' [])
          \<lparr>db = empty_store, mail = []\<rparr>)) = [(''Your token is uuid-i'', ''a@x.com'')]"
  using register_response_bare [OF register_empty_a]
  by (simp add: register_empty_a)




subsection \<open>logout\<close>

lemma logout_same_user:
  assumes "onRequest M J secret (db w) r1 = Inr r1'"
    and "onRequest M J secret (db w) r2 = Inr r2'"
    and "userId r1' = userId r2'"
  shows "snd (authenticated M J secret (logout M) r1 w)
       = snd (authenticated M J secret (logout M) r2 w)"
  using assms
  by (auto simp: authenticated_def logout_def split: option.splits sum.splits)

lemma split_c1: "headerToken_split ''Bearer jwt-c1'' = Some ''jwt-c1''"
  by (simp add: headerToken_split_def js_split_def js_index_def)

lemma split_c2: "headerToken_split ''Bearer jwt-c2'' = Some ''jwt-c2''"
  by (simp add: headerToken_split_def js_split_def js_index_def)

lemma gate_two_sessions_userId:
  assumes "onRequest M table_jwt k two_sessions (request_to ''/auth/logout'' (Some h)) = Inr r'"
    and "h = ''Bearer jwt-c1'' \<or> h = ''Bearer jwt-c2''"
  shows "userId r' = ''u1''"
  using assms
  by (auto simp: onRequest_def split_c1 split_c2 scenario_defs User_findOne_def
           split: if_splits option.splits sum.splits)

text \<open>
  C2, as the code has it. The hook hands logout the user id and nothing of the
  credential, and \<^verbatim>\<open>user.logout()\<close> is called without argument. So two logout calls
  that the gate admits for the same user, with whatever credentials, leave the same
  world behind: what logout revokes does not depend on the credential that made the
  call.
\<close>

theorem logout_determined_by_user:
  assumes "onRequest M J secret (db w) r1 = Inr r1'"
    and "onRequest M J secret (db w) r2 = Inr r2'"
    and "userId r1' = userId r2'"
  shows "snd (authenticated M J secret (logout M) r1 w)
       = snd (authenticated M J secret (logout M) r2 w)"
  using assms by (rule logout_same_user)

theorem logout_determined_by_user_witness:
  "onRequest spec_models table_jwt ''k'' (db \<lparr>db = two_sessions, mail = ()\<rparr>)
      (request_to ''/auth/logout'' (Some ''Bearer jwt-c1''))
     = Inr ((request_to ''/auth/logout'' (Some ''Bearer jwt-c1''))\<lparr>userId := ''u1''\<rparr>)
   \<and> onRequest spec_models table_jwt ''k'' (db \<lparr>db = two_sessions, mail = ()\<rparr>)
      (request_to ''/auth/logout'' (Some ''Bearer jwt-c2''))
     = Inr ((request_to ''/auth/logout'' (Some ''Bearer jwt-c2''))\<lparr>userId := ''u1''\<rparr>)
   \<and> snd (authenticated spec_models table_jwt ''k'' (logout spec_models)
            (request_to ''/auth/logout'' (Some ''Bearer jwt-c1'')) \<lparr>db = two_sessions, mail = ()\<rparr>)
     = snd (authenticated spec_models table_jwt ''k'' (logout spec_models)
            (request_to ''/auth/logout'' (Some ''Bearer jwt-c2'')) \<lparr>db = two_sessions, mail = ()\<rparr>)"
proof -
  let ?w = "\<lparr>db = two_sessions, mail = ()\<rparr>"
  have g1: "onRequest spec_models table_jwt ''k'' (db ?w)
      (request_to ''/auth/logout'' (Some ''Bearer jwt-c1''))
     = Inr ((request_to ''/auth/logout'' (Some ''Bearer jwt-c1''))\<lparr>userId := ''u1''\<rparr>)"
    by (simp add: onRequest_def split_c1 scenario_defs User_findOne_def
          spec_jwtTokenById_def spec_active_def)
  have g2: "onRequest spec_models table_jwt ''k'' (db ?w)
      (request_to ''/auth/logout'' (Some ''Bearer jwt-c2''))
     = Inr ((request_to ''/auth/logout'' (Some ''Bearer jwt-c2''))\<lparr>userId := ''u1''\<rparr>)"
    by (simp add: onRequest_def split_c2 scenario_defs User_findOne_def
          spec_jwtTokenById_def spec_active_def)
  have same: "userId ((request_to ''/auth/logout'' (Some ''Bearer jwt-c1''))\<lparr>userId := ''u1''\<rparr>)
            = userId ((request_to ''/auth/logout'' (Some ''Bearer jwt-c2''))\<lparr>userId := ''u1''\<rparr>)"
    by simp
  from g1 g2 logout_determined_by_user [OF g1 g2 same] show ?thesis by blast
qed

text \<open>
  A user with two active credentials \<open>c1\<close> and \<open>c2\<close>: whatever the entity methods
  do, it cannot be that both credentials pass the gate, that logout with \<open>c1\<close> revokes
  \<open>c1\<close> and leaves \<open>c2\<close> usable, and that logout with \<open>c2\<close> revokes \<open>c2\<close> and
  leaves \<open>c1\<close> usable.
\<close>

theorem logout_single_session_counterexample:
  "\<not> (\<exists>M.
        \<not> isl (onRequest M table_jwt ''k'' two_sessions (request_to ''/auth/logout'' (Some ''Bearer jwt-c1'')))
      \<and> \<not> isl (onRequest M table_jwt ''k'' two_sessions (request_to ''/auth/logout'' (Some ''Bearer jwt-c2'')))
      \<and> (let w1 = snd (authenticated M table_jwt ''k'' (logout M)
                         (request_to ''/auth/logout'' (Some ''Bearer jwt-c1''))
                         \<lparr>db = two_sessions, mail = ()\<rparr>)
         in isl (onRequest M table_jwt ''k'' (db w1) (request_to ''/user/me'' (Some ''Bearer jwt-c1'')))
          \<and> \<not> isl (onRequest M table_jwt ''k'' (db w1) (request_to ''/user/me'' (Some ''Bearer jwt-c2''))))
      \<and> (let w2 = snd (authenticated M table_jwt ''k'' (logout M)
                         (request_to ''/auth/logout'' (Some ''Bearer jwt-c2''))
                         \<lparr>db = two_sessions, mail = ()\<rparr>)
         in isl (onRequest M table_jwt ''k'' (db w2) (request_to ''/user/me'' (Some ''Bearer jwt-c2'')))
          \<and> \<not> isl (onRequest M table_jwt ''k'' (db w2) (request_to ''/user/me'' (Some ''Bearer jwt-c1'')))))"
proof
  let ?w = "\<lparr>db = two_sessions, mail = ()\<rparr>"
  let ?l1 = "request_to ''/auth/logout'' (Some ''Bearer jwt-c1'')"
  let ?l2 = "request_to ''/auth/logout'' (Some ''Bearer jwt-c2'')"
  assume "\<exists>M.
        \<not> isl (onRequest M table_jwt ''k'' two_sessions ?l1)
      \<and> \<not> isl (onRequest M table_jwt ''k'' two_sessions ?l2)
      \<and> (let w1 = snd (authenticated M table_jwt ''k'' (logout M) ?l1 ?w)
         in isl (onRequest M table_jwt ''k'' (db w1) (request_to ''/user/me'' (Some ''Bearer jwt-c1'')))
          \<and> \<not> isl (onRequest M table_jwt ''k'' (db w1) (request_to ''/user/me'' (Some ''Bearer jwt-c2''))))
      \<and> (let w2 = snd (authenticated M table_jwt ''k'' (logout M) ?l2 ?w)
         in isl (onRequest M table_jwt ''k'' (db w2) (request_to ''/user/me'' (Some ''Bearer jwt-c2'')))
          \<and> \<not> isl (onRequest M table_jwt ''k'' (db w2) (request_to ''/user/me'' (Some ''Bearer jwt-c1''))))"
  then obtain M where
    a1: "\<not> isl (onRequest M table_jwt ''k'' two_sessions ?l1)" and
    a2: "\<not> isl (onRequest M table_jwt ''k'' two_sessions ?l2)" and
    b1: "isl (onRequest M table_jwt ''k'' (db (snd (authenticated M table_jwt ''k'' (logout M) ?l1 ?w)))
               (request_to ''/user/me'' (Some ''Bearer jwt-c1'')))" and
    b2: "\<not> isl (onRequest M table_jwt ''k'' (db (snd (authenticated M table_jwt ''k'' (logout M) ?l2 ?w)))
               (request_to ''/user/me'' (Some ''Bearer jwt-c1'')))"
    by (auto simp: Let_def)
  from a1 obtain r1' where g1: "onRequest M table_jwt ''k'' (db ?w) ?l1 = Inr r1'"
    by (cases "onRequest M table_jwt ''k'' two_sessions ?l1") auto
  from a2 obtain r2' where g2: "onRequest M table_jwt ''k'' (db ?w) ?l2 = Inr r2'"
    by (cases "onRequest M table_jwt ''k'' two_sessions ?l2") auto
  from g1 have "userId r1' = ''u1''" by (auto intro: gate_two_sessions_userId)
  moreover from g2 have "userId r2' = ''u1''" by (auto intro: gate_two_sessions_userId)
  ultimately have "userId r1' = userId r2'" by simp
  with g1 g2 have "snd (authenticated M table_jwt ''k'' (logout M) ?l1 ?w)
       = snd (authenticated M table_jwt ''k'' (logout M) ?l2 ?w)"
    by (rule logout_same_user)
  with b1 b2 show False by simp
qed

subsection \<open>What a call can do to the store\<close>

lemma register_db:
  "db (snd (register M S r w)) = db w
   \<or> (\<exists>user. User_registerUser M (db w) (body_email r) = Inr (user, db (snd (register M S r w))))"
  by (auto simp: register_def split: option.splits sum.splits prod.splits)

lemma requestToken_db:
  "db (snd (requestToken M S r w)) = db w
   \<or> (\<exists>user. User_createNewToken M (db w) user = Inr (db (snd (requestToken M S r w))))"
  by (auto simp: requestToken_def Let_def split: option.splits sum.splits prod.splits)

lemma login_db:
  "db (snd (login M J k r w)) = db w
   \<or> (\<exists>user t. User_loginByTempToken M (db w) user t = Inr (db (snd (login M J k r w))))"
  by (auto simp: login_def Let_def split: option.splits sum.splits prod.splits)

lemma logout_db:
  "db (snd (authenticated M J k (logout M) r w)) = db w
   \<or> (\<exists>user. User_logout M (db w) user = Inr (db (snd (authenticated M J k (logout M) r w))))"
  by (auto simp: authenticated_def logout_def split: option.splits sum.splits prod.splits)

text \<open>
  A property of the store that every mutating entity method keeps is kept by every
  call, and so by every sequence of calls.
\<close>

lemma exec_preserves:
  assumes "P (db w)"
    and "\<And>d v user d1. P d \<Longrightarrow> User_registerUser M d v = Inr (user, d1) \<Longrightarrow> P d1"
    and "\<And>d user d1. P d \<Longrightarrow> User_createNewToken M d user = Inr d1 \<Longrightarrow> P d1"
    and "\<And>d user t d1. P d \<Longrightarrow> User_loginByTempToken M d user t = Inr d1 \<Longrightarrow> P d1"
    and "\<And>d user d1. P d \<Longrightarrow> User_logout M d user = Inr d1 \<Longrightarrow> P d1"
  shows "P (db (snd (exec M J k S c w)))"
proof (cases c)
  case (Register r)
  with register_db [of M S r w] assms(1,2) show ?thesis by auto
next
  case (RequestToken r)
  with requestToken_db [of M S r w] assms(1,3) show ?thesis by auto
next
  case (Login r)
  with login_db [of M J k r w] assms(1,4) show ?thesis by auto
next
  case (Logout r)
  with logout_db [of M J k r w] assms(1,5) show ?thesis by auto
qed

lemma run_preserves:
  assumes "P (db w)"
    and "\<And>d v user d1. P d \<Longrightarrow> User_registerUser M d v = Inr (user, d1) \<Longrightarrow> P d1"
    and "\<And>d user d1. P d \<Longrightarrow> User_createNewToken M d user = Inr d1 \<Longrightarrow> P d1"
    and "\<And>d user t d1. P d \<Longrightarrow> User_loginByTempToken M d user t = Inr d1 \<Longrightarrow> P d1"
    and "\<And>d user d1. P d \<Longrightarrow> User_logout M d user = Inr d1 \<Longrightarrow> P d1"
  shows "P (db (run M J k S cs w))"
  using assms(1)
proof (induction cs arbitrary: w)
  case Nil
  then show ?case by simp
next
  case (Cons c cs)
  have "P (db (snd (exec M J k S c w)))"
    by (rule exec_preserves [where P = P, OF Cons.prems assms(2-5)])
  then show ?case by (simp add: Cons.IH)
qed

subsection \<open>Registering an email twice\<close>

lemma spec_run_keeps_email:
  assumes "spec_checkEmailExist (db w) v"
  shows "spec_checkEmailExist (db (run spec_models J k S cs w)) v"
proof (rule run_preserves [where P = "\<lambda>d. spec_checkEmailExist d v", OF assms])
  fix d d1 :: store and v' user
  assume "spec_checkEmailExist d v" "User_registerUser spec_models d v' = Inr (user, d1)"
  then show "spec_checkEmailExist d1 v"
    by (auto simp: spec_registerUser_def spec_checkEmailExist_def list_ex_iff split: if_splits)
next
  fix d d1 :: store and user
  assume "spec_checkEmailExist d v" "User_createNewToken spec_models d user = Inr d1"
  then show "spec_checkEmailExist d1 v"
    by (auto simp: spec_createNewToken_def spec_checkEmailExist_def split: option.splits)
next
  fix d d1 :: store and user t
  assume "spec_checkEmailExist d v" "User_loginByTempToken spec_models d user t = Inr d1"
  then show "spec_checkEmailExist d1 v"
    by (auto simp: spec_loginByTempToken_def spec_checkEmailExist_def)
next
  fix d d1 :: store and user
  assume "spec_checkEmailExist d v" "User_logout spec_models d user = Inr d1"
  then show "spec_checkEmailExist d1 v"
    by (auto simp: spec_logout_def spec_checkEmailExist_def)
qed

lemma register_conflict:
  assumes "UserEmail_checkEmailExist M (db w) (body_email r)"
  shows "register M S r w
         = (Inl (Error (''User with email '' @ body_email r @ '' already exist'')), w)"
  using assms by (simp add: register_def)

lemma register_success_email:
  assumes "register spec_models S r w = (Inr response, w1)"
  shows "spec_checkEmailExist (db w1) (body_email r)"
  using assms
  by (auto simp: register_def spec_registerUser_def spec_checkEmailExist_def
           split: if_splits option.splits sum.splits)

text \<open>
  C7 (with the entity methods as the specification describes them). Once register
  has succeeded for an email, then after any further sequence of calls a register
  with that email throws \<open>User with email <e> already exist\<close> and returns the world
  it was given: no user, email or token is created and nothing is sent.
\<close>

theorem register_twice_conflict:
  assumes "register spec_models emailSender request w = (Inr response, w1)"
  shows "\<forall>calls request'. body_email request' = body_email request \<longrightarrow>
           register spec_models emailSender request' (run spec_models J secret emailSender calls w1)
           = (Inl (Error (''User with email '' @ body_email request @ '' already exist'')),
              run spec_models J secret emailSender calls w1)"
proof (intro allI impI)
  fix calls and request' :: FastifyRequest
  assume eq: "body_email request' = body_email request"
  from assms have "spec_checkEmailExist (db w1) (body_email request)"
    by (rule register_success_email)
  then have "spec_checkEmailExist (db (run spec_models J secret emailSender calls w1)) (body_email request')"
    unfolding eq by (rule spec_run_keeps_email)
  then have "UserEmail_checkEmailExist spec_models
               (db (run spec_models J secret emailSender calls w1)) (body_email request')"
    by simp
  then show "register spec_models emailSender request' (run spec_models J secret emailSender calls w1)
           = (Inl (Error (''User with email '' @ body_email request @ '' already exist'')),
              run spec_models J secret emailSender calls w1)"
    unfolding eq [symmetric] by (rule register_conflict)
qed

theorem register_twice_conflict_witness:
  "fst (register spec_models outbox_sender (request_body ''a@x.com'' [])
          \<lparr>db = empty_store, mail = []\<rparr>) = Inr \<lparr>sr_requestId = ''r1'', sr_data = None\<rparr>
   \<and> fst (register spec_models outbox_sender (request_body ''a@x.com'' [])
          (run spec_models table_jwt ''k'' outbox_sender
             [Login (request_body ''a@x.com'' ''uuid-i''), RequestToken (request_body ''a@x.com'' [])]
             (snd (register spec_models outbox_sender (request_body ''a@x.com'' [])
                    \<lparr>db = empty_store, mail = []\<rparr>))))
     = Inl (Error ''User with email a@x.com already exist'')"
proof -
  let ?r = "request_body ''a@x.com'' []"
  let ?w = "\<lparr>db = empty_store, mail = ([] :: (string \<times> string) list)\<rparr>"
  let ?cs = "[Login (request_body ''a@x.com'' ''uuid-i''), RequestToken ?r]"
  have first: "register spec_models outbox_sender ?r ?w
               = (Inr \<lparr>sr_requestId = ''r1'', sr_data = None\<rparr>,
                  snd (register spec_models outbox_sender ?r ?w))"
    by (simp add: register_empty_a)
  note twice = register_twice_conflict [OF first, of table_jwt "''k''"]
  have "register spec_models outbox_sender ?r
          (run spec_models table_jwt ''k'' outbox_sender ?cs
             (snd (register spec_models outbox_sender ?r ?w)))
        = (Inl (Error (''User with email '' @ body_email ?r @ '' already exist'')),
           run spec_models table_jwt ''k'' outbox_sender ?cs
             (snd (register spec_models outbox_sender ?r ?w)))"
    by (rule twice [rule_format]) (rule refl)
  then have "fst (register spec_models outbox_sender ?r
          (run spec_models table_jwt ''k'' outbox_sender ?cs
             (snd (register spec_models outbox_sender ?r ?w))))
        = Inl (Error (''User with email '' @ body_email ?r @ '' already exist''))"
    by (simp only: fst_conv)
  moreover have "''User with email '' @ body_email ?r @ '' already exist''
                 = ''User with email a@x.com already exist''"
    by (simp add: request_body_def)
  moreover have "fst (register spec_models outbox_sender ?r ?w)
                 = Inr \<lparr>sr_requestId = ''r1'', sr_data = None\<rparr>"
    by (simp add: register_empty_a)
  ultimately show ?thesis by (simp only:)
qed

subsection \<open>One-time use of temp tokens\<close>














subsection \<open>Revoked credentials\<close>










end
